theory Spec2Isabelle
  imports Complex_Main
begin

section \<open>Errors as values\<close>

text \<open>
  Every \<^verbatim>\<open>assert\<close>, every failing attribute lookup and every shape mismatch of
  \<^verbatim>\<open>SimPEG/Regularization.py\<close> is a value of \<open>error\<close>; a function that can raise returns
  \<open>error + 'a\<close> with \<open>Inl\<close> for the exception.  Floating point numbers are idealised as
  \<open>real\<close>.
\<close>

datatype error =
    AssertionError string
  | TypeError string
  | AttributeError string
  | IndexError
  | ValueError

definition bind_err :: "error + 'a \<Rightarrow> ('a \<Rightarrow> error + 'b) \<Rightarrow> error + 'b" where
  "bind_err m f = (case m of Inl e \<Rightarrow> Inl e | Inr x \<Rightarrow> f x)"

section \<open>Dense vectors (numpy arrays of rank one)\<close>

type_synonym vec = "real list"

definition dot :: "vec \<Rightarrow> vec \<Rightarrow> real" where
  \<comment> \<open>\<^verbatim>\<open>a.dot(b)\<close> for two arrays of one length\<close>
  "dot xs ys = sum_list (map2 (*) xs ys)"

definition broadcast :: "(real \<Rightarrow> real \<Rightarrow> real) \<Rightarrow> vec \<Rightarrow> vec \<Rightarrow> error + vec" where
  \<comment> \<open>an element-wise numpy operation on two arrays of rank one: equal lengths, or one
      of them of length one, else a ValueError\<close>
  "broadcast f a b =
     (if length a = length b then Inr (map2 f a b)
      else if length b = 1 then Inr (map (\<lambda>x. f x (hd b)) a)
      else if length a = 1 then Inr (map (\<lambda>y. f (hd a) y) b)
      else Inl ValueError)"

definition scale :: "real \<Rightarrow> vec \<Rightarrow> vec" where
  "scale c v = map (\<lambda>x. c * x) v"

definition vsqrt :: "vec \<Rightarrow> vec" where
  \<comment> \<open>\<^verbatim>\<open>v**0.5\<close>; the weights it is applied to are non-negative\<close>
  "vsqrt v = map sqrt v"

text \<open>
  Modelled from the spec: \<^verbatim>\<open>Utils.Zero\<close>, the "structural-zero value usable in arithmetic
  as an additive identity" (the module \<^verbatim>\<open>Utils\<close> is not among the source files).
\<close>

datatype mref = Zero | Arr vec

definition sub_mref :: "vec \<Rightarrow> mref \<Rightarrow> error + vec" where
  \<comment> \<open>\<^verbatim>\<open>m - self.mref\<close>\<close>
  "sub_mref m r = (case r of Zero \<Rightarrow> Inr m | Arr a \<Rightarrow> broadcast (-) m a)"

section \<open>Sparse matrices\<close>

text \<open>
  A scipy sparse matrix is kept as its shape and its rows.  The number of rows is the
  length of \<open>rows\<close>; the number of columns is stored, since a matrix without rows still
  has one.  A product of mismatching shapes raises ValueError, as scipy does.
\<close>

record mat =
  ncols :: nat
  rows :: "vec list"

definition nrows :: "mat \<Rightarrow> nat" where
  "nrows A = length (rows A)"

definition mat_ok :: "mat \<Rightarrow> bool" where
  \<comment> \<open>rectangular: every row has \<open>ncols\<close> entries\<close>
  "mat_ok A = list_all (\<lambda>r. length r = ncols A) (rows A)"

definition col :: "mat \<Rightarrow> nat \<Rightarrow> vec" where
  "col A j = map (\<lambda>r. r ! j) (rows A)"

definition mat_T :: "mat \<Rightarrow> mat" where
  \<comment> \<open>\<^verbatim>\<open>A.T\<close>\<close>
  "mat_T A = \<lparr>ncols = nrows A, rows = map (col A) [0..<ncols A]\<rparr>"

definition mat_vec :: "mat \<Rightarrow> vec \<Rightarrow> error + vec" where
  \<comment> \<open>\<^verbatim>\<open>A * v\<close> for a sparse matrix and an array\<close>
  "mat_vec A v =
     (if ncols A = length v then Inr (map (\<lambda>r. dot r v) (rows A)) else Inl ValueError)"

definition mat_mul :: "mat \<Rightarrow> mat \<Rightarrow> error + mat" where
  \<comment> \<open>\<^verbatim>\<open>A * B\<close> for two sparse matrices\<close>
  "mat_mul A B =
     (if ncols A = nrows B
      then Inr \<lparr>ncols = ncols B,
                rows = map (\<lambda>r. map (\<lambda>j. dot r (col B j)) [0..<ncols B]) (rows A)\<rparr>
      else Inl ValueError)"

definition row_sums :: "mat \<Rightarrow> vec" where
  \<comment> \<open>\<^verbatim>\<open>A.sum(1)\<close>\<close>
  "row_sums A = map sum_list (rows A)"

definition select :: "bool list \<Rightarrow> 'a list \<Rightarrow> 'a list" where
  "select msk xs = map snd (filter fst (zip msk xs))"

definition count_true :: "bool list \<Rightarrow> nat" where
  "count_true msk = length (filter (\<lambda>b. b) msk)"

definition cols_where :: "mat \<Rightarrow> bool list \<Rightarrow> error + mat" where
  \<comment> \<open>\<^verbatim>\<open>A[:, msk]\<close> for a boolean mask: the mask has one entry per column\<close>
  "cols_where A msk =
     (if length msk = ncols A
      then Inr \<lparr>ncols = count_true msk, rows = map (select msk) (rows A)\<rparr>
      else Inl IndexError)"

text \<open>
  Modelled from the spec: \<^verbatim>\<open>Utils.speye\<close> and \<^verbatim>\<open>Utils.sdiag\<close>, the spec's
  \<^verbatim>\<open>identityMatrix(n)\<close> and \<^verbatim>\<open>diagonalMatrix(vector)\<close>.
\<close>

definition sdiag :: "vec \<Rightarrow> mat" where
  "sdiag v =
     \<lparr>ncols = length v,
      rows = map (\<lambda>i. map (\<lambda>j. if i = j then v ! i else 0) [0..<length v]) [0..<length v]\<rparr>"

definition speye :: "nat \<Rightarrow> mat" where
  "speye n = sdiag (replicate n 1)"

text \<open>
  Modelled from the spec: \<^verbatim>\<open>Utils.Identity\<close>, the "structural-identity-weight value usable
  as a multiplicative identity".  A weighting operator or a mapping's derivative is this
  sentinel or a sparse matrix.
\<close>

datatype linop = Identity | Sparse mat

definition lin_T :: "linop \<Rightarrow> linop" where
  "lin_T L = (case L of Identity \<Rightarrow> Identity | Sparse A \<Rightarrow> Sparse (mat_T A))"

definition lin_mul :: "linop \<Rightarrow> linop \<Rightarrow> error + linop" where
  "lin_mul L M =
     (case L of
        Identity \<Rightarrow> Inr M
      | Sparse A \<Rightarrow>
          (case M of
             Identity \<Rightarrow> Inr (Sparse A)
           | Sparse B \<Rightarrow> bind_err (mat_mul A B) (\<lambda>C. Inr (Sparse C))))"

definition lin_vec :: "linop \<Rightarrow> vec \<Rightarrow> error + vec" where
  "lin_vec L v = (case L of Identity \<Rightarrow> Inr v | Sparse A \<Rightarrow> mat_vec A v)"

section \<open>The mapping and the mesh (consumed interfaces)\<close>

text \<open>
  Modelled from the spec: the mapping interface of \<^verbatim>\<open>Maps\<close> (\<^verbatim>\<open>parameterCount\<close>,
  \<^verbatim>\<open>apply(vector) -> vector\<close>, \<^verbatim>\<open>derivative(vector) -> linearOperator\<close>) and the identity
  mapping \<^verbatim>\<open>Maps.IdentityMap(nP=n)\<close>; the module is not among the source files.
  \<open>map_nP = None\<close> is a mapping of unspecified size.
\<close>

record mapping =
  map_nP :: "nat option"
  map_apply :: "vec \<Rightarrow> vec"
  map_deriv :: "vec \<Rightarrow> linop"

definition IdentityMap :: "nat option \<Rightarrow> mapping" where
  "IdentityMap n =
     \<lparr>map_nP = n,
      map_apply = (\<lambda>x. x),
      map_deriv = (\<lambda>x. case n of None \<Rightarrow> Identity | Some k \<Rightarrow> Sparse (speye k))\<rparr>"

text \<open>
  Modelled from the spec: the mesh interface (\<^verbatim>\<open>cellCount\<close>, \<^verbatim>\<open>faceCount[axis]\<close>,
  \<^verbatim>\<open>dimensionality\<close>, \<^verbatim>\<open>cellVolumes\<close>, native averaging, gradient, divergence and gradient
  stencil per axis).  The source reads them as \<^verbatim>\<open>mesh.nC\<close>, \<^verbatim>\<open>mesh.nFx\<close>, \<^verbatim>\<open>mesh.dim\<close>,
  \<^verbatim>\<open>mesh.vol\<close>, \<^verbatim>\<open>mesh.aveFx2CC\<close>, \<^verbatim>\<open>mesh.cellGradx\<close>, \<^verbatim>\<open>mesh.faceDivx\<close> and
  \<^verbatim>\<open>mesh._cellGradxStencil()\<close>, and likewise for y and z.
\<close>

datatype axis = X | Y | Z

record mesh =
  mesh_nC :: nat
  mesh_dim :: nat
  mesh_vol :: vec
  mesh_nF :: "axis \<Rightarrow> nat"
  mesh_aveF2CC :: "axis \<Rightarrow> mat"
  mesh_cellGrad :: "axis \<Rightarrow> mat"
  mesh_faceDiv :: "axis \<Rightarrow> mat"
  mesh_cellGradStencil :: "axis \<Rightarrow> mat"

section \<open>RegularizationMesh\<close>

text \<open>An active-cell array as a caller can pass it: a boolean mask or an array of indices.\<close>

datatype ndarray = BoolArr "bool list" | IntArr "int list"

record regmesh =
  rm_mesh :: mesh
  rm_indActive :: "bool list option"

definition RegularizationMesh_init :: "mesh \<Rightarrow> ndarray option \<Rightarrow> error + regmesh" where
  "RegularizationMesh_init M ind =
     (case ind of
        None \<Rightarrow> Inr \<lparr>rm_mesh = M, rm_indActive = None\<rparr>
      | Some (BoolArr b) \<Rightarrow> Inr \<lparr>rm_mesh = M, rm_indActive = Some b\<rparr>
      | Some (IntArr i) \<Rightarrow> Inl (AssertionError ''indActive needs to be None or a bool''))"

text \<open>
  The properties of the adapter.  Each is computed on first access and kept; a kept value
  that nothing updates in place is the value computed, so these are functions of the
  adapter.  (The reduced volume vector is updated in place by one constructor; it is
  modelled with an explicit array store in the section on second derivatives.)
\<close>

definition regmesh_nC :: "regmesh \<Rightarrow> nat" where
  "regmesh_nC rm =
     (case rm_indActive rm of None \<Rightarrow> mesh_nC (rm_mesh rm) | Some b \<Rightarrow> count_true b)"

definition regmesh_dim :: "regmesh \<Rightarrow> nat" where
  "regmesh_dim rm = mesh_dim (rm_mesh rm)"

definition regmesh_Pac :: "regmesh \<Rightarrow> error + mat" where
  "regmesh_Pac rm =
     (case rm_indActive rm of
        None \<Rightarrow> Inr (speye (mesh_nC (rm_mesh rm)))
      | Some b \<Rightarrow> cols_where (speye (mesh_nC (rm_mesh rm))) b)"

definition regmesh_Paf :: "axis \<Rightarrow> regmesh \<Rightarrow> error + mat" where
  \<comment> \<open>\<^verbatim>\<open>Pafx\<close>, \<^verbatim>\<open>Pafy\<close>, \<^verbatim>\<open>Pafz\<close>\<close>
  "regmesh_Paf ax rm =
     (case rm_indActive rm of
        None \<Rightarrow> Inr (speye (mesh_nF (rm_mesh rm) ax))
      | Some b \<Rightarrow>
          bind_err (mat_vec (mat_T (mesh_aveF2CC (rm_mesh rm) ax)) (map of_bool b))
            (\<lambda>t. cols_where (speye (mesh_nF (rm_mesh rm) ax)) (map (\<lambda>x. x = 1) t)))"

definition regmesh_aveF2CC :: "axis \<Rightarrow> regmesh \<Rightarrow> error + mat" where
  "regmesh_aveF2CC ax rm =
     bind_err (regmesh_Pac rm) (\<lambda>Pac.
     bind_err (mat_mul (mat_T Pac) (mesh_aveF2CC (rm_mesh rm) ax)) (\<lambda>PA.
     bind_err (regmesh_Paf ax rm) (\<lambda>Paf. mat_mul PA Paf)))"

definition regmesh_aveCC2F :: "axis \<Rightarrow> regmesh \<Rightarrow> error + mat" where
  \<comment> \<open>a zero row sum is \<^verbatim>\<open>inf\<close> in numpy and 0 here\<close>
  "regmesh_aveCC2F ax rm =
     bind_err (regmesh_aveF2CC ax rm) (\<lambda>A.
       mat_mul (sdiag (map (\<lambda>s. 1 / s) (row_sums (mat_T A)))) (mat_T A))"

definition regmesh_cellDiff :: "axis \<Rightarrow> regmesh \<Rightarrow> error + mat" where
  "regmesh_cellDiff ax rm =
     bind_err (regmesh_Paf ax rm) (\<lambda>Paf.
     bind_err (mat_mul (mat_T Paf) (mesh_cellGrad (rm_mesh rm) ax)) (\<lambda>PG.
     bind_err (regmesh_Pac rm) (\<lambda>Pac. mat_mul PG Pac)))"

definition regmesh_faceDiff :: "axis \<Rightarrow> regmesh \<Rightarrow> error + mat" where
  "regmesh_faceDiff ax rm =
     bind_err (regmesh_Pac rm) (\<lambda>Pac.
     bind_err (mat_mul (mat_T Pac) (mesh_faceDiv (rm_mesh rm) ax)) (\<lambda>PD.
     bind_err (regmesh_Paf ax rm) (\<lambda>Paf. mat_mul PD Paf)))"

definition min_dim :: "axis \<Rightarrow> nat" where
  "min_dim ax = (case ax of X \<Rightarrow> 1 | Y \<Rightarrow> 2 | Z \<Rightarrow> 3)"

definition regmesh_cellDiffStencil :: "axis \<Rightarrow> regmesh \<Rightarrow> error + mat option" where
  \<comment> \<open>\<^verbatim>\<open>cellDiffyStencil\<close> and \<^verbatim>\<open>cellDiffzStencil\<close> return \<^verbatim>\<open>None\<close> on a mesh of too few
      dimensions; \<^verbatim>\<open>cellDiffxStencil\<close> has no such test\<close>
  "regmesh_cellDiffStencil ax rm =
     (if ax \<noteq> X \<and> regmesh_dim rm < min_dim ax then Inr None
      else
        bind_err (regmesh_Paf ax rm) (\<lambda>Paf.
        bind_err (mat_mul (mat_T Paf) (mesh_cellGradStencil (rm_mesh rm) ax)) (\<lambda>PG.
        bind_err (regmesh_Pac rm) (\<lambda>Pac.
        bind_err (mat_mul PG Pac) (\<lambda>S. Inr (Some S))))))"

definition regmesh_vol :: "regmesh \<Rightarrow> error + vec" where
  \<comment> \<open>the value \<^verbatim>\<open>vol\<close> computes on first access: \<^verbatim>\<open>self.Pac.T * self.mesh.vol\<close>\<close>
  "regmesh_vol rm = bind_err (regmesh_Pac rm) (\<lambda>Pac. mat_vec (mat_T Pac) (mesh_vol (rm_mesh rm)))"

section \<open>BaseRegularization\<close>

text \<open>
  An instance is the record of its attributes.  \<open>W = None\<close> and \<open>mapping = None\<close> are
  Python's \<^verbatim>\<open>None\<close>; \<open>nP\<close> is the attribute \<^verbatim>\<open>_nP\<close>.  \<open>norm_p\<close> is the attribute
  \<^verbatim>\<open>norm\<close> of the sparse terms and \<open>Wz\<close> the attribute of that name which \<^verbatim>\<open>Sparse_z\<close> sets.
\<close>

record reg =
  mesh :: "mesh option"
  regmesh :: "regmesh option"
  indActive :: "ndarray option"
  mapping :: "mapping option"
  mref :: mref
  W :: "linop option"
  nP :: "nat option"
  cell_weights :: "vec option"
  mrefInSmooth :: bool
  alpha_s :: real
  alpha_x :: real
  alpha_y :: real
  alpha_z :: real
  eps_p :: real
  eps_q :: real
  model :: "vec option"
  gamma :: real
  norm_p :: real
  Wz :: "linop option"

text \<open>
  The attributes as the classes of the file declare them: \<^verbatim>\<open>mapping = None\<close>,
  \<^verbatim>\<open>mref = Utils.Zero()\<close>, \<^verbatim>\<open>indActive = None\<close>, \<^verbatim>\<open>cell_weights = None\<close>,
  \<^verbatim>\<open>mrefInSmooth = False\<close>, \<^verbatim>\<open>alpha_s = alpha_x = alpha_y = alpha_z = 1.0\<close> (class
  \<^verbatim>\<open>Simple\<close>), \<^verbatim>\<open>eps_p = eps_q = 1e-1\<close>, \<^verbatim>\<open>model = None\<close>, \<^verbatim>\<open>gamma = 1.\<close>, and \<^verbatim>\<open>norm\<close>, which
  is 0 in \<^verbatim>\<open>SparseSmallness\<close> and 2 in \<^verbatim>\<open>Sparse_x\<close>, \<^verbatim>\<open>Sparse_y\<close>, \<^verbatim>\<open>Sparse_z\<close>.
  Modelled from the spec: the weighting operator of the base objective function, "default:
  identity" (\<^verbatim>\<open>ObjectiveFunction\<close> is not among the source files).
\<close>

definition class_attrs :: "real \<Rightarrow> reg" where
  "class_attrs p =
     \<lparr>mesh = None, regmesh = None, indActive = None, mapping = None, mref = Zero,
      W = Some Identity, nP = None, cell_weights = None, mrefInSmooth = False,
      alpha_s = 1, alpha_x = 1, alpha_y = 1, alpha_z = 1,
      eps_p = 1 / 10, eps_q = 1 / 10, model = None, gamma = 1, norm_p = p, Wz = None\<rparr>"

text \<open>The keyword arguments of a constructor call; \<open>None\<close> is a keyword that is not passed.\<close>

record kwargs =
  kw_nP :: "nat option"
  kw_W :: "linop option"
  kw_mapping :: "mapping option"
  kw_mref :: "mref option"
  kw_indActive :: "ndarray option"
  kw_cell_weights :: "vec option"
  kw_mrefInSmooth :: "bool option"
  kw_alpha_s :: "real option"
  kw_alpha_x :: "real option"
  kw_alpha_y :: "real option"
  kw_alpha_z :: "real option"
  kw_eps_p :: "real option"
  kw_eps_q :: "real option"
  kw_model :: "vec option"
  kw_gamma :: "real option"
  kw_norm :: "real option"

definition no_kwargs :: kwargs where
  "no_kwargs =
     \<lparr>kw_nP = None, kw_W = None, kw_mapping = None, kw_mref = None, kw_indActive = None,
      kw_cell_weights = None, kw_mrefInSmooth = None, kw_alpha_s = None, kw_alpha_x = None,
      kw_alpha_y = None, kw_alpha_z = None, kw_eps_p = None, kw_eps_q = None,
      kw_model = None, kw_gamma = None, kw_norm = None\<rparr>"

definition or_keep :: "'a option \<Rightarrow> 'a \<Rightarrow> 'a" where
  "or_keep k a = (case k of None \<Rightarrow> a | Some v \<Rightarrow> v)"

definition or_keep_opt :: "'a option \<Rightarrow> 'a option \<Rightarrow> 'a option" where
  "or_keep_opt k a = (case k of None \<Rightarrow> a | Some v \<Rightarrow> Some v)"

text \<open>
  Modelled from the spec: \<^verbatim>\<open>ObjectiveFunction.L2ObjectiveFunction.__init__(**kwargs)\<close>, which
  is not among the source files.  The spec's base state is the attributes named by the
  keywords (mapping, reference model, weighting operator, ...); each keyword passed
  replaces the attribute of its name, the others keep the class's value.
\<close>

definition L2ObjectiveFunction_init :: "reg \<Rightarrow> kwargs \<Rightarrow> reg" where
  "L2ObjectiveFunction_init self kw =
     self\<lparr>W := or_keep_opt (kw_W kw) (W self),
          mapping := or_keep_opt (kw_mapping kw) (mapping self),
          mref := or_keep (kw_mref kw) (mref self),
          indActive := or_keep_opt (kw_indActive kw) (indActive self),
          cell_weights := or_keep_opt (kw_cell_weights kw) (cell_weights self),
          mrefInSmooth := or_keep (kw_mrefInSmooth kw) (mrefInSmooth self),
          alpha_s := or_keep (kw_alpha_s kw) (alpha_s self),
          alpha_x := or_keep (kw_alpha_x kw) (alpha_x self),
          alpha_y := or_keep (kw_alpha_y kw) (alpha_y self),
          alpha_z := or_keep (kw_alpha_z kw) (alpha_z self),
          eps_p := or_keep (kw_eps_p kw) (eps_p self),
          eps_q := or_keep (kw_eps_q kw) (eps_q self),
          model := or_keep_opt (kw_model kw) (model self),
          gamma := or_keep (kw_gamma kw) (gamma self),
          norm_p := or_keep (kw_norm kw) (norm_p self)\<rparr>"

definition np_index :: "nat \<Rightarrow> int \<Rightarrow> nat" where
  \<comment> \<open>numpy counts a negative index from the end\<close>
  "np_index n i = nat (if i < 0 then int n + i else i)"

definition set_true :: "nat \<Rightarrow> int list \<Rightarrow> error + bool list" where
  \<comment> \<open>\<^verbatim>\<open>a = np.zeros(n, dtype=bool); a[tmp] = True\<close>\<close>
  "set_true n tmp =
     (if list_all (\<lambda>i. - int n \<le> i \<and> i < int n) tmp
      then Inr (fold (\<lambda>i a. a[np_index n i := True]) tmp (replicate n False))
      else Inl IndexError)"

definition ensure_bool :: "reg \<Rightarrow> error + reg" where
  \<comment> \<open>lines 378 to 388: "ensure indActive are bools"\<close>
  "ensure_bool self =
     (case indActive self of
        None \<Rightarrow> Inr self
      | Some a \<Rightarrow>
          bind_err
            (case a of
               BoolArr b \<Rightarrow> Inr self
             | IntArr tmp \<Rightarrow>
                 (case mesh self of
                    None \<Rightarrow> Inl (AttributeError ''nC'')
                  | Some M \<Rightarrow>
                      bind_err (set_true (mesh_nC M) tmp)
                        (\<lambda>b. Inr (self\<lparr>indActive := Some (BoolArr b)\<rparr>))))
            (\<lambda>self.
               (case mapping self of
                  Some mp \<Rightarrow> Inr self
                | None \<Rightarrow>
                    (case indActive self of
                       Some (BoolArr b) \<Rightarrow>
                         Inr (self\<lparr>mapping := Some (IdentityMap (Some (count_true b)))\<rparr>)
                     | _ \<Rightarrow> Inr self))))"

definition create_regmesh :: "reg \<Rightarrow> error + reg" where
  \<comment> \<open>lines 390 to 394: "create regularization mesh if using"\<close>
  "create_regmesh self =
     (case mesh self of
        Some M \<Rightarrow>
          bind_err (RegularizationMesh_init M (indActive self))
            (\<lambda>rm. Inr (self\<lparr>regmesh := Some rm\<rparr>))
      | None \<Rightarrow> Inr (self\<lparr>regmesh := None\<rparr>))"

definition set_nP :: "reg \<Rightarrow> nat option \<Rightarrow> error + reg" where
  \<comment> \<open>lines 396 to 406: "set nP".  \<^verbatim>\<open>warnings\<close> is the module imported at line 5, and
      calling a module raises TypeError\<close>
  "set_nP self nP_arg =
     (case mapping self of
        Some mp \<Rightarrow>
          (if nP_arg \<noteq> None then Inl (TypeError ''module object is not callable'')
           else Inr (self\<lparr>nP := map_nP mp\<rparr>))
      | None \<Rightarrow>
          (case mesh self of
             Some M \<Rightarrow>
               (if nP_arg \<noteq> None then Inl (TypeError ''module object is not callable'')
                else Inr (self\<lparr>nP := map_option regmesh_nC (regmesh self)\<rparr>))
           | None \<Rightarrow> Inr (self\<lparr>nP := nP_arg\<rparr>)))"

definition set_mapping :: "reg \<Rightarrow> reg" where
  \<comment> \<open>lines 408 to 410: \<^verbatim>\<open>self.mapping or self.mapPair(nP=self._nP)\<close>, with
      \<^verbatim>\<open>mapPair = Maps.IdentityMap\<close>; a mapping object is true, and the check
      \<^verbatim>\<open>_assertMatchesPair\<close> of \<^verbatim>\<open>Maps\<close> against the base class of all mappings passes\<close>
  "set_mapping self =
     self\<lparr>mapping := Some (case mapping self of Some mp \<Rightarrow> mp | None \<Rightarrow> IdentityMap (nP self))\<rparr>"

definition BaseRegularization_init :: "reg \<Rightarrow> mesh option \<Rightarrow> kwargs \<Rightarrow> error + reg" where
  \<comment> \<open>\<open>cls\<close> is the instance before \<^verbatim>\<open>__init__\<close> runs: the attributes of its class;
      \<^verbatim>\<open>nP\<close> is the keyword of that name\<close>
  "BaseRegularization_init cls mesh_arg kw =
     bind_err (ensure_bool ((L2ObjectiveFunction_init cls kw)\<lparr>mesh := mesh_arg\<rparr>)) (\<lambda>self.
     bind_err (create_regmesh self) (\<lambda>self.
     bind_err (set_nP self (kw_nP kw)) (\<lambda>self. Inr (set_mapping self))))"

definition residual :: "reg \<Rightarrow> vec \<Rightarrow> error + vec" where
  \<comment> \<open>\<^verbatim>\<open>r = self.W * (self.mapping * (m - self.mref))\<close>\<close>
  "residual self m =
     bind_err (sub_mref m (mref self)) (\<lambda>d.
       case mapping self of
         None \<Rightarrow> Inl (TypeError ''unsupported operand'')
       | Some mp \<Rightarrow>
           (case W self of
              None \<Rightarrow> Inl (TypeError ''unsupported operand'')
            | Some L \<Rightarrow> lin_vec L (map_apply mp d)))"

definition reg_eval :: "reg \<Rightarrow> vec \<Rightarrow> error + real" where
  \<comment> \<open>\<^verbatim>\<open>_eval\<close>\<close>
  "reg_eval self m = bind_err (residual self m) (\<lambda>r. Inr (0.5 * dot r r))"

definition mapping_deriv :: "reg \<Rightarrow> vec \<Rightarrow> error + linop" where
  \<comment> \<open>\<^verbatim>\<open>mD = self.mapping.deriv(m - self.mref)\<close>\<close>
  "mapping_deriv self m =
     bind_err (sub_mref m (mref self)) (\<lambda>d.
       case mapping self of
         None \<Rightarrow> Inl (AttributeError ''deriv'')
       | Some mp \<Rightarrow> Inr (map_deriv mp d))"

definition reg_deriv :: "reg \<Rightarrow> vec \<Rightarrow> error + vec" where
  \<comment> \<open>\<^verbatim>\<open>deriv\<close>: \<^verbatim>\<open>mD.T * (self.W.T * r)\<close>\<close>
  "reg_deriv self m =
     bind_err (mapping_deriv self m) (\<lambda>mD.
     bind_err (residual self m) (\<lambda>r.
       case W self of
         None \<Rightarrow> Inl (AttributeError ''T'')
       | Some L \<Rightarrow> bind_err (lin_vec (lin_T L) r) (\<lambda>g. lin_vec (lin_T mD) g)))"

datatype hessian = Operator linop | Product vec

definition reg_deriv2 :: "reg \<Rightarrow> vec \<Rightarrow> vec option \<Rightarrow> error + hessian" where
  \<comment> \<open>\<^verbatim>\<open>deriv2\<close>: \<^verbatim>\<open>mD.T * self.W.T * self.W * mD\<close> without \<open>v\<close>, else
      \<^verbatim>\<open>mD.T * (self.W.T * (self.W * (mD * v)))\<close>\<close>
  "reg_deriv2 self m v =
     bind_err (mapping_deriv self m) (\<lambda>mD.
       case W self of
         None \<Rightarrow> Inl (AttributeError ''T'')
       | Some L \<Rightarrow>
           (case v of
              None \<Rightarrow>
                bind_err (lin_mul (lin_T mD) (lin_T L)) (\<lambda>A.
                bind_err (lin_mul A L) (\<lambda>B.
                bind_err (lin_mul B mD) (\<lambda>H. Inr (Operator H))))
            | Some v \<Rightarrow>
                bind_err (lin_vec mD v) (\<lambda>a.
                bind_err (lin_vec L a) (\<lambda>b.
                bind_err (lin_vec (lin_T L) b) (\<lambda>c.
                bind_err (lin_vec (lin_T mD) c) (\<lambda>h. Inr (Product h)))))))"

section \<open>Smallness\<close>

definition Smallness_init :: "reg \<Rightarrow> mesh option \<Rightarrow> kwargs \<Rightarrow> error + reg" where
  \<comment> \<open>\<^verbatim>\<open>self.cell_weights\<close> is read before any keyword is stored: it is the class's
      attribute.  A keyword \<^verbatim>\<open>W\<close> of the caller's would be passed twice, a TypeError\<close>
  "Smallness_init cls mesh_arg kw =
     (let W0 = (case cell_weights cls of None \<Rightarrow> Identity | Some cw \<Rightarrow> Sparse (sdiag cw))
      in if kw_W kw \<noteq> None then Inl (TypeError ''multiple values for keyword argument W'')
         else BaseRegularization_init cls mesh_arg (kw\<lparr>kw_W := Some W0\<rparr>))"

section \<open>First derivatives without length scales: BaseSimpleSmooth and Simple\<close>

definition the_regmesh :: "reg \<Rightarrow> error + regmesh" where
  \<comment> \<open>\<^verbatim>\<open>self.regmesh\<close>, of which an attribute is read next\<close>
  "the_regmesh self =
     (case regmesh self of None \<Rightarrow> Inl (AttributeError ''regmesh'') | Some rm \<Rightarrow> Inr rm)"

definition drop_mref :: "reg \<Rightarrow> reg" where
  \<comment> \<open>\<^verbatim>\<open>if self.mrefInSmooth is False: self.mref = Utils.Zero()\<close>\<close>
  "drop_mref self = (if mrefInSmooth self then self else self\<lparr>mref := Zero\<rparr>)"

definition BaseSimpleSmooth_init :: "reg \<Rightarrow> mesh \<Rightarrow> axis \<Rightarrow> kwargs \<Rightarrow> error + reg" where
  "BaseSimpleSmooth_init cls M ax kw =
     bind_err (BaseRegularization_init cls (Some M) kw) (\<lambda>self.
     bind_err (the_regmesh self) (\<lambda>rm.
     bind_err (regmesh_cellDiffStencil ax rm) (\<lambda>S.
       Inr (drop_mref (self\<lparr>W := map_option Sparse S\<rparr>)))))"

definition dim_error :: "axis \<Rightarrow> error" where
  \<comment> \<open>the failed \<^verbatim>\<open>assert(mesh.dim > 1)\<close> or \<^verbatim>\<open>assert(mesh.dim > 2)\<close> with its message\<close>
  "dim_error ax =
     AssertionError
       (''Mesh must have at least '' @ (case ax of X \<Rightarrow> ''1'' | Y \<Rightarrow> ''2'' | Z \<Rightarrow> ''3'') @
        '' dimensions to regularize along the '' @
        (case ax of X \<Rightarrow> ''x'' | Y \<Rightarrow> ''y'' | Z \<Rightarrow> ''z'') @ ''-direction'')"

definition SimpleSmooth_x_init :: "reg \<Rightarrow> mesh \<Rightarrow> kwargs \<Rightarrow> error + reg" where
  "SimpleSmooth_x_init cls M kw = BaseSimpleSmooth_init cls M X kw"

definition SimpleSmooth_y_init :: "reg \<Rightarrow> mesh \<Rightarrow> kwargs \<Rightarrow> error + reg" where
  "SimpleSmooth_y_init cls M kw =
     (if mesh_dim M > 1 then BaseSimpleSmooth_init cls M Y kw else Inl (dim_error Y))"

definition SimpleSmooth_z_init :: "reg \<Rightarrow> mesh \<Rightarrow> kwargs \<Rightarrow> error + reg" where
  "SimpleSmooth_z_init cls M kw =
     (if mesh_dim M > 2 then BaseSimpleSmooth_init cls M Z kw else Inl (dim_error Z))"

text \<open>
  Modelled from the spec: the composite objective of \<^verbatim>\<open>ObjectiveFunction\<close>, "an ordered list
  of (multiplier, term)" whose value is the sum of \<^verbatim>\<open>multiplier_i * term_i.value(m)\<close>.  It
  is what \<^verbatim>\<open>alpha * term + alpha' * term'\<close> builds; it has no attribute \<^verbatim>\<open>alpha_y\<close>.
\<close>

type_synonym combo = "(real \<times> reg) list"

fun combo_eval :: "combo \<Rightarrow> vec \<Rightarrow> error + real" where
  "combo_eval [] m = Inr 0"
| "combo_eval ((a, t) # ts) m =
     bind_err (reg_eval t m) (\<lambda>v. bind_err (combo_eval ts m) (\<lambda>s. Inr (a * v + s)))"

definition Simple_local :: "reg \<Rightarrow> mesh \<Rightarrow> kwargs \<Rightarrow> error + combo" where
  \<comment> \<open>lines 651 to 658: the value of the local name \<^verbatim>\<open>self\<close> once it is assigned to.  On
      a mesh of two or three dimensions \<^verbatim>\<open>self.alpha_y\<close> is then read from the composite\<close>
  "Simple_local self M kw =
     bind_err (Smallness_init (class_attrs 2) (Some M) kw) (\<lambda>phi_s.
     bind_err (SimpleSmooth_x_init (class_attrs 2) M kw) (\<lambda>phi_x.
       if mesh_dim M > 1 then Inl (AttributeError ''alpha_y'')
       else Inr [(alpha_s self, phi_s), (alpha_x self, phi_x)]))"

definition Simple_init :: "reg \<Rightarrow> mesh \<Rightarrow> kwargs \<Rightarrow> error + reg" where
  \<comment> \<open>the instance is what \<^verbatim>\<open>BaseRegularization.__init__\<close> left: assigning to the name
      \<^verbatim>\<open>self\<close> does not change it\<close>
  "Simple_init cls M kw =
     bind_err (BaseRegularization_init cls (Some M) kw) (\<lambda>self.
     bind_err (Simple_local self M kw) (\<lambda>combo. Inr self))"

section \<open>Arrays that are updated in place\<close>

text \<open>
  \<^verbatim>\<open>RegularizationMesh.vol\<close> returns the array object it keeps in \<^verbatim>\<open>_vol\<close>, and
  \<^verbatim>\<open>BaseSmooth2.__init__\<close> multiplies that object in place.  Arrays that can be shared are
  therefore kept in a store, addressed by references; \<open>vol_ref\<close> is the attribute \<^verbatim>\<open>_vol\<close>
  of the adapter of an instance.
\<close>

type_synonym ref = nat

record store =
  arrays :: "ref \<Rightarrow> vec option"
  next_ref :: ref

definition empty_store :: store where
  "empty_store = \<lparr>arrays = (\<lambda>a. None), next_ref = 0\<rparr>"

record adapter =
  adp_regmesh :: regmesh
  vol_ref :: "ref option"

definition vol_property :: "adapter \<Rightarrow> store \<Rightarrow> error + (ref \<times> adapter \<times> store)" where
  \<comment> \<open>lines 33 to 43\<close>
  "vol_property ad s =
     (case vol_ref ad of
        Some a \<Rightarrow> Inr (a, ad, s)
      | None \<Rightarrow>
          bind_err (regmesh_vol (adp_regmesh ad)) (\<lambda>v.
            Inr (next_ref s, ad\<lparr>vol_ref := Some (next_ref s)\<rparr>,
                 s\<lparr>arrays := (arrays s)(next_ref s \<mapsto> v), next_ref := Suc (next_ref s)\<rparr>)))"

definition read_array :: "ref \<Rightarrow> store \<Rightarrow> vec" where
  "read_array a s = (case arrays s a of None \<Rightarrow> [] | Some v \<Rightarrow> v)"

definition imul :: "ref \<Rightarrow> vec \<Rightarrow> store \<Rightarrow> error + store" where
  \<comment> \<open>\<^verbatim>\<open>vol *= w\<close>: the product is written into the array \<open>a\<close>, whose length stays\<close>
  "imul a w s =
     (let v = read_array a s in
      if length w = length v then Inr (s\<lparr>arrays := (arrays s)(a \<mapsto> map2 (*) v w)\<rparr>)
      else if length w = 1 then Inr (s\<lparr>arrays := (arrays s)(a \<mapsto> map (\<lambda>x. x * hd w) v)\<rparr>)
      else Inl ValueError)"

section \<open>First derivatives with length scales: BaseSmooth\<close>

text \<open>
  A constructor that reads \<^verbatim>\<open>regmesh.vol\<close> takes the store and returns the instance, the
  adapter of the instance with its \<^verbatim>\<open>_vol\<close>, and the store.
\<close>

definition BaseSmooth_init ::
  "reg \<Rightarrow> mesh \<Rightarrow> axis \<Rightarrow> kwargs \<Rightarrow> store \<Rightarrow> error + (reg \<times> adapter \<times> store)" where
  \<comment> \<open>lines 681 to 706; \<^verbatim>\<open>ave * self.cell_weights * self.regmesh.vol\<close> is the product of
      \<^verbatim>\<open>ave * self.cell_weights\<close> and the volumes, element by element\<close>
  "BaseSmooth_init cls M ax kw s =
     bind_err (BaseRegularization_init cls (Some M) kw) (\<lambda>self.
     bind_err (the_regmesh self) (\<lambda>rm.
     bind_err (regmesh_aveCC2F ax rm) (\<lambda>ave.
     bind_err
       (case cell_weights self of
          Some cw \<Rightarrow>
            bind_err (mat_vec ave cw) (\<lambda>aw.
            bind_err (vol_property \<lparr>adp_regmesh = rm, vol_ref = None\<rparr> s) (\<lambda>(a, ad, s).
            bind_err (broadcast (*) aw (read_array a s)) (\<lambda>Ave_vol. Inr (Ave_vol, ad, s))))
        | None \<Rightarrow>
            bind_err (vol_property \<lparr>adp_regmesh = rm, vol_ref = None\<rparr> s) (\<lambda>(a, ad, s).
            bind_err (mat_vec ave (read_array a s)) (\<lambda>Ave_vol. Inr (Ave_vol, ad, s))))
       (\<lambda>(Ave_vol, ad, s).
     bind_err (regmesh_cellDiff ax rm) (\<lambda>D.
     bind_err (mat_mul (sdiag (vsqrt Ave_vol)) D) (\<lambda>W0.
       Inr (drop_mref (self\<lparr>W := Some (Sparse W0)\<rparr>), ad, s)))))))"

definition Smooth_x_init ::
  "reg \<Rightarrow> mesh \<Rightarrow> kwargs \<Rightarrow> store \<Rightarrow> error + (reg \<times> adapter \<times> store)" where
  "Smooth_x_init cls M kw s = BaseSmooth_init cls M X kw s"

definition Smooth_y_init ::
  "reg \<Rightarrow> mesh \<Rightarrow> kwargs \<Rightarrow> store \<Rightarrow> error + (reg \<times> adapter \<times> store)" where
  "Smooth_y_init cls M kw s =
     (if mesh_dim M > 1 then BaseSmooth_init cls M Y kw s else Inl (dim_error Y))"

definition Smooth_z_init ::
  "reg \<Rightarrow> mesh \<Rightarrow> kwargs \<Rightarrow> store \<Rightarrow> error + (reg \<times> adapter \<times> store)" where
  "Smooth_z_init cls M kw s =
     (if mesh_dim M > 2 then BaseSmooth_init cls M Z kw s else Inl (dim_error Z))"

section \<open>Second derivatives: BaseSmooth2\<close>

definition BaseSmooth2_init ::
  "reg \<Rightarrow> mesh \<Rightarrow> axis \<Rightarrow> kwargs \<Rightarrow> store \<Rightarrow> error + (reg \<times> adapter \<times> store)" where
  \<comment> \<open>lines 768 to 785: \<^verbatim>\<open>vol = self.regmesh.vol\<close> names the array the adapter keeps, and
      \<^verbatim>\<open>vol *= self.cell_weights\<close> writes into it\<close>
  "BaseSmooth2_init cls M ax kw s =
     bind_err (BaseRegularization_init cls (Some M) kw) (\<lambda>self.
     bind_err (the_regmesh self) (\<lambda>rm.
     bind_err (vol_property \<lparr>adp_regmesh = rm, vol_ref = None\<rparr> s) (\<lambda>(vol, ad, s).
     bind_err (case cell_weights self of None \<Rightarrow> Inr s | Some cw \<Rightarrow> imul vol cw s) (\<lambda>s.
     bind_err (regmesh_faceDiff ax rm) (\<lambda>F.
     bind_err (mat_mul (sdiag (vsqrt (read_array vol s))) F) (\<lambda>SF.
     bind_err (regmesh_cellDiff ax rm) (\<lambda>D.
     bind_err (mat_mul SF D) (\<lambda>W0.
       Inr (self\<lparr>W := Some (Sparse W0)\<rparr>, ad, s)))))))))"

definition Smooth_xx_init ::
  "reg \<Rightarrow> mesh \<Rightarrow> kwargs \<Rightarrow> store \<Rightarrow> error + (reg \<times> adapter \<times> store)" where
  "Smooth_xx_init cls M kw s = BaseSmooth2_init cls M X kw s"

text \<open>
  \<^verbatim>\<open>Smooth_yy\<close> and \<^verbatim>\<open>Smooth_zz\<close> derive from \<^verbatim>\<open>BaseRegularization\<close>, not from
  \<^verbatim>\<open>BaseSmooth2\<close>: after the test of the dimension they run the base constructor, with a
  keyword \<^verbatim>\<open>orientation\<close> that names no attribute this file reads.
\<close>

definition Smooth_yy_init :: "reg \<Rightarrow> mesh \<Rightarrow> kwargs \<Rightarrow> error + reg" where
  "Smooth_yy_init cls M kw =
     (if mesh_dim M > 1 then BaseRegularization_init cls (Some M) kw else Inl (dim_error Y))"

definition Smooth_zz_init :: "reg \<Rightarrow> mesh \<Rightarrow> kwargs \<Rightarrow> error + reg" where
  "Smooth_zz_init cls M kw =
     (if mesh_dim M > 2 then BaseRegularization_init cls (Some M) kw else Inl (dim_error Z))"

section \<open>Sparse terms\<close>

definition BaseSparse_init :: "reg \<Rightarrow> mesh \<Rightarrow> kwargs \<Rightarrow> error + reg" where
  \<comment> \<open>lines 921 to 929\<close>
  "BaseSparse_init cls M kw =
     bind_err (BaseRegularization_init cls (Some M) kw) (\<lambda>self.
       case cell_weights self of
         Some cw \<Rightarrow> Inr self
       | None \<Rightarrow>
           bind_err (the_regmesh self) (\<lambda>rm.
             Inr (self\<lparr>cell_weights := Some (replicate (regmesh_nC rm) 1)\<rparr>)))"

definition fpow :: "real \<Rightarrow> real \<Rightarrow> real" where
  \<comment> \<open>\<^verbatim>\<open>x**y\<close> for a base that is not negative: \<^verbatim>\<open>x**0.\<close> is 1 for every \<open>x\<close>\<close>
  "fpow x y = (if y = 0 then 1 else x powr y)"

definition R :: "vec \<Rightarrow> real \<Rightarrow> real \<Rightarrow> vec" where
  \<comment> \<open>lines 931 to 937, for a threshold \<open>eps\<close> that is positive\<close>
  "R f_m eps exponent =
     (let eta = fpow (fpow eps (1 - exponent / 2)) (1 / 2)
      in map (\<lambda>f. eta / fpow (f * f + eps * eps) ((1 - exponent / 2) / 2)) f_m)"

definition the_cell_weights :: "reg \<Rightarrow> error + vec" where
  "the_cell_weights self =
     (case cell_weights self of None \<Rightarrow> Inl (TypeError ''unsupported operand'') | Some cw \<Rightarrow> Inr cw)"

definition the_mapping :: "reg \<Rightarrow> error + mapping" where
  "the_mapping self =
     (case mapping self of None \<Rightarrow> Inl (TypeError ''unsupported operand'') | Some mp \<Rightarrow> Inr mp)"

definition SparseSmallness_init :: "reg \<Rightarrow> mesh \<Rightarrow> kwargs \<Rightarrow> error + reg" where
  \<comment> \<open>lines 951 to 962.  With a model, the arguments of \<^verbatim>\<open>self.R\<close> are evaluated in turn,
      and \<^verbatim>\<open>self.norms\<close> is an attribute of no class that \<^verbatim>\<open>SparseSmallness\<close> derives from
      (nor is \<^verbatim>\<open>self.r\<close>, which the next line reads)\<close>
  "SparseSmallness_init cls M kw =
     bind_err (BaseSparse_init cls M kw) (\<lambda>self.
     bind_err (the_regmesh self) (\<lambda>rm.
     bind_err
       (case model self of
          None \<Rightarrow> Inr (speye (regmesh_nC rm))
        | Some mdl \<Rightarrow>
            bind_err (sub_mref mdl (mref self)) (\<lambda>d.
            bind_err (the_mapping self) (\<lambda>mp.
              (let f_m = map_apply mp d in Inl (AttributeError ''norms'')))))
       (\<lambda>R0.
     bind_err (the_cell_weights self) (\<lambda>cw.
     bind_err (mat_mul (sdiag (vsqrt (scale (gamma self) cw))) R0) (\<lambda>W0.
       Inr (self\<lparr>W := Some (Sparse W0)\<rparr>))))))"

definition the_stencil :: "axis \<Rightarrow> regmesh \<Rightarrow> error + mat" where
  \<comment> \<open>\<^verbatim>\<open>self.regmesh.cellDiffxStencil\<close> where a matrix is needed\<close>
  "the_stencil ax rm =
     bind_err (regmesh_cellDiffStencil ax rm) (\<lambda>S.
       case S of None \<Rightarrow> Inl (AttributeError ''shape'') | Some S \<Rightarrow> Inr S)"

definition sparse_weights :: "axis \<Rightarrow> reg \<Rightarrow> error + mat" where
  \<comment> \<open>the text \<^verbatim>\<open>Sparse_x\<close>, \<^verbatim>\<open>Sparse_y\<close> and \<^verbatim>\<open>Sparse_z\<close> share, from the test of
      \<^verbatim>\<open>self.model\<close> to the product that is assigned (lines 976 to 989, 1008 to 1021,
      1037 to 1050)\<close>
  "sparse_weights ax self =
     bind_err (the_regmesh self) (\<lambda>rm.
     bind_err
       (case model self of
          None \<Rightarrow> bind_err (the_stencil ax rm) (\<lambda>S. Inr (speye (nrows S)))
        | Some mdl \<Rightarrow>
            bind_err (the_stencil ax rm) (\<lambda>S.
            bind_err (the_mapping self) (\<lambda>mp.
            bind_err (mat_vec S (map_apply mp mdl)) (\<lambda>f_m.
              Inr (sdiag (R f_m (eps_q self) (norm_p self)))))))
       (\<lambda>R0.
     bind_err (regmesh_aveCC2F ax rm) (\<lambda>ave.
     bind_err (the_cell_weights self) (\<lambda>cw.
     bind_err (mat_vec ave cw) (\<lambda>aw.
     bind_err (mat_mul (sdiag (vsqrt (scale (gamma self) aw))) R0) (\<lambda>SR.
     bind_err (the_stencil ax rm) (\<lambda>S. mat_mul SR S)))))))"

definition Sparse_x_init :: "reg \<Rightarrow> mesh \<Rightarrow> kwargs \<Rightarrow> error + reg" where
  "Sparse_x_init cls M kw =
     bind_err (BaseSparse_init cls M kw) (\<lambda>self.
     bind_err (sparse_weights X self) (\<lambda>W0. Inr (self\<lparr>W := Some (Sparse W0)\<rparr>)))"

definition Sparse_y_init :: "reg \<Rightarrow> mesh \<Rightarrow> kwargs \<Rightarrow> error + reg" where
  "Sparse_y_init cls M kw =
     (if mesh_dim M > 1
      then bind_err (BaseSparse_init cls M kw) (\<lambda>self.
           bind_err (sparse_weights Y self) (\<lambda>W0. Inr (self\<lparr>W := Some (Sparse W0)\<rparr>)))
      else Inl (dim_error Y))"

definition Sparse_z_init :: "reg \<Rightarrow> mesh \<Rightarrow> kwargs \<Rightarrow> error + reg" where
  \<comment> \<open>line 1045 assigns the product to \<^verbatim>\<open>self.Wz\<close>\<close>
  "Sparse_z_init cls M kw =
     (if mesh_dim M > 2
      then bind_err (BaseSparse_init cls M kw) (\<lambda>self.
           bind_err (sparse_weights Z self) (\<lambda>W0. Inr (self\<lparr>Wz := Some (Sparse W0)\<rparr>)))
      else Inl (dim_error Z))"

section \<open>Shapes, and two small meshes\<close>

definition lin_ok :: "linop \<Rightarrow> bool" where
  "lin_ok L = (case L of Identity \<Rightarrow> True | Sparse A \<Rightarrow> mat_ok A)"

definition lin_takes :: "linop \<Rightarrow> nat \<Rightarrow> bool" where
  \<comment> \<open>the operator applies to arrays of length \<open>n\<close>\<close>
  "lin_takes L n = (case L of Identity \<Rightarrow> True | Sparse A \<Rightarrow> ncols A = n)"

definition lin_gives :: "linop \<Rightarrow> nat \<Rightarrow> nat" where
  \<comment> \<open>the length of the result on an array of length \<open>n\<close>\<close>
  "lin_gives L n = (case L of Identity \<Rightarrow> n | Sparse A \<Rightarrow> nrows A)"

text \<open>
  Operators of a row of \<open>n\<close> unit cells along one axis, with \<open>n + 1\<close> faces across it:
  averaging from faces to cell centres, the gradient (zero on the two outer faces) and
  the divergence.  Across an axis along which the mesh has one cell, every cell has its
  own two outer faces.
\<close>

definition ave_row :: "nat \<Rightarrow> mat" where
  "ave_row n =
     \<lparr>ncols = Suc n,
      rows = map (\<lambda>i. map (\<lambda>f. if f = i \<or> f = Suc i then 1 / 2 else 0) [0..<Suc n]) [0..<n]\<rparr>"

definition grad_row :: "nat \<Rightarrow> mat" where
  "grad_row n =
     \<lparr>ncols = n,
      rows = map (\<lambda>f. map (\<lambda>i. if f = 0 \<or> f = n then 0
                                else if i = f then 1 else if Suc i = f then - 1 else 0)
                         [0..<n]) [0..<Suc n]\<rparr>"

definition div_row :: "nat \<Rightarrow> mat" where
  "div_row n =
     \<lparr>ncols = Suc n,
      rows = map (\<lambda>i. map (\<lambda>f. if f = Suc i then 1 else if f = i then - 1 else 0)
                         [0..<Suc n]) [0..<n]\<rparr>"

definition ave_across :: "nat \<Rightarrow> mat" where
  "ave_across n =
     \<lparr>ncols = 2 * n,
      rows = map (\<lambda>i. map (\<lambda>f. if f = 2 * i \<or> f = Suc (2 * i) then 1 / 2 else 0)
                         [0..<2 * n]) [0..<n]\<rparr>"

definition zeros :: "nat \<Rightarrow> nat \<Rightarrow> mat" where
  "zeros k n = \<lparr>ncols = n, rows = replicate k (replicate n 0)\<rparr>"

definition div_across :: "nat \<Rightarrow> mat" where
  "div_across n =
     \<lparr>ncols = 2 * n,
      rows = map (\<lambda>i. map (\<lambda>f. if f = Suc (2 * i) then 1 else if f = 2 * i then - 1 else 0)
                         [0..<2 * n]) [0..<n]\<rparr>"

definition line_mesh :: "nat \<Rightarrow> mesh" where
  \<comment> \<open>a mesh of one dimension: \<open>n\<close> unit cells along x\<close>
  "line_mesh n =
     \<lparr>mesh_nC = n, mesh_dim = 1, mesh_vol = replicate n 1,
      mesh_nF = (\<lambda>ax. case ax of X \<Rightarrow> Suc n | _ \<Rightarrow> 0),
      mesh_aveF2CC = (\<lambda>ax. case ax of X \<Rightarrow> ave_row n | _ \<Rightarrow> zeros n 0),
      mesh_cellGrad = (\<lambda>ax. case ax of X \<Rightarrow> grad_row n | _ \<Rightarrow> zeros 0 n),
      mesh_faceDiv = (\<lambda>ax. case ax of X \<Rightarrow> div_row n | _ \<Rightarrow> zeros n 0),
      mesh_cellGradStencil = (\<lambda>ax. case ax of X \<Rightarrow> grad_row n | _ \<Rightarrow> zeros 0 n)\<rparr>"

definition column_mesh :: "nat \<Rightarrow> mesh" where
  \<comment> \<open>a mesh of three dimensions: \<open>n\<close> unit cells along z, one cell along x and y\<close>
  "column_mesh n =
     \<lparr>mesh_nC = n, mesh_dim = 3, mesh_vol = replicate n 1,
      mesh_nF = (\<lambda>ax. case ax of Z \<Rightarrow> Suc n | _ \<Rightarrow> 2 * n),
      mesh_aveF2CC = (\<lambda>ax. case ax of Z \<Rightarrow> ave_row n | _ \<Rightarrow> ave_across n),
      mesh_cellGrad = (\<lambda>ax. case ax of Z \<Rightarrow> grad_row n | _ \<Rightarrow> zeros (2 * n) n),
      mesh_faceDiv = (\<lambda>ax. case ax of Z \<Rightarrow> div_row n | _ \<Rightarrow> div_across n),
      mesh_cellGradStencil = (\<lambda>ax. case ax of Z \<Rightarrow> grad_row n | _ \<Rightarrow> zeros (2 * n) n)\<rparr>"

definition no_index_array :: "reg \<Rightarrow> bool" where
  \<comment> \<open>the active set is absent or a boolean mask\<close>
  "no_index_array self =
     (case indActive self of Some (IntArr tmp) \<Rightarrow> False | _ \<Rightarrow> True)"

section \<open>Facts about vectors and matrices\<close>

lemma dot_nth:
  assumes "length xs = length ys"
  shows "dot xs ys = (\<Sum>i<length xs. xs ! i * ys ! i)"
proof -
  have "dot xs ys = (\<Sum>i<length (map2 (*) xs ys). map2 (*) xs ys ! i)"
    unfolding dot_def by (simp add: sum_list_sum_nth atLeast0LessThan)
  also have "\<dots> = (\<Sum>i<length xs. xs ! i * ys ! i)"
    using assms by simp
  finally show ?thesis .
qed

lemma dot_self: "dot r r = (\<Sum>i<length r. (r ! i)\<^sup>2)"
  by (simp add: dot_nth power2_eq_square)

lemma mat_T_shape [simp]: "ncols (mat_T A) = nrows A" "nrows (mat_T A) = ncols A"
  by (simp_all add: mat_T_def nrows_def)

lemma mat_T_ok [simp]: "mat_ok (mat_T A)"
  by (simp add: mat_ok_def mat_T_def col_def nrows_def list_all_iff)

lemma row_length: "mat_ok A \<Longrightarrow> r \<in> set (rows A) \<Longrightarrow> length r = ncols A"
  by (simp add: mat_ok_def list_all_iff)

lemma dot_assoc:
  assumes B: "mat_ok B" and r: "length r = nrows B" and v: "length v = ncols B"
  shows "dot (map (\<lambda>j. dot r (col B j)) [0..<ncols B]) v = dot r (map (\<lambda>b. dot b v) (rows B))"
proof -
  have len: "\<And>k. k < nrows B \<Longrightarrow> length (rows B ! k) = ncols B"
    using B by (simp add: mat_ok_def list_all_length nrows_def)
  have "dot (map (\<lambda>j. dot r (col B j)) [0..<ncols B]) v
      = (\<Sum>j<ncols B. dot r (col B j) * v ! j)"
    using v by (simp add: dot_nth)
  also have "\<dots> = (\<Sum>j<ncols B. (\<Sum>k<nrows B. r ! k * (rows B ! k ! j)) * v ! j)"
    using r by (simp add: dot_nth col_def nrows_def)
  also have "\<dots> = (\<Sum>j<ncols B. \<Sum>k<nrows B. r ! k * (rows B ! k ! j * v ! j))"
    by (simp add: sum_distrib_right mult.assoc)
  also have "\<dots> = (\<Sum>k<nrows B. \<Sum>j<ncols B. r ! k * (rows B ! k ! j * v ! j))"
    by (rule sum.swap)
  also have "\<dots> = (\<Sum>k<nrows B. r ! k * dot (rows B ! k) v)"
    using v len by (simp add: dot_nth sum_distrib_left)
  also have "\<dots> = dot r (map (\<lambda>b. dot b v) (rows B))"
    using r by (simp add: dot_nth nrows_def)
  finally show ?thesis .
qed

lemma mat_mul_vec:
  assumes A: "mat_ok A" and B: "mat_ok B" and AB: "ncols A = nrows B"
  shows "\<exists>C. mat_mul A B = Inr C \<and> mat_ok C \<and> ncols C = ncols B \<and> nrows C = nrows A \<and>
           (\<forall>v. length v = ncols B \<longrightarrow> mat_vec C v = bind_err (mat_vec B v) (mat_vec A))"
proof -
  let ?C = "\<lparr>ncols = ncols B, rows = map (\<lambda>r. map (\<lambda>j. dot r (col B j)) [0..<ncols B]) (rows A)\<rparr>"
  have 1: "mat_mul A B = Inr ?C" using AB by (simp add: mat_mul_def)
  have 2: "mat_ok ?C" by (simp add: mat_ok_def list_all_iff)
  have 3: "mat_vec ?C v = bind_err (mat_vec B v) (mat_vec A)" if v: "length v = ncols B" for v
  proof -
    have "map (\<lambda>r. dot (map (\<lambda>j. dot r (col B j)) [0..<ncols B]) v) (rows A)
        = map (\<lambda>r. dot r (map (\<lambda>b. dot b v) (rows B))) (rows A)"
      using dot_assoc [OF B _ v] row_length [OF A] AB by simp
    then show ?thesis
      using v AB by (simp add: mat_vec_def bind_err_def nrows_def comp_def)
  qed
  show ?thesis using 1 2 3 by (intro exI [of _ ?C]) (simp add: nrows_def)
qed

lemma mat_vec_length:
  "mat_vec A v = Inr w \<Longrightarrow> length w = nrows A"
  by (auto simp: mat_vec_def nrows_def split: if_splits)

lemma mat_vec_defined: "ncols A = length v \<Longrightarrow> \<exists>w. mat_vec A v = Inr w \<and> length w = nrows A"
  by (simp add: mat_vec_def nrows_def)

lemma lin_mul_vec:
  assumes "lin_ok L" "lin_ok M" "lin_takes L (lin_gives M n)" "lin_takes M n"
  shows "\<exists>P. lin_mul L M = Inr P \<and> lin_ok P \<and> lin_takes P n \<and> lin_gives P n = lin_gives L (lin_gives M n) \<and>
           (\<forall>v. length v = n \<longrightarrow> lin_vec P v = bind_err (lin_vec M v) (lin_vec L))"
proof (cases L)
  case Identity
  then show ?thesis using assms
    by (cases M) (auto simp: lin_mul_def lin_vec_def lin_gives_def bind_err_def mat_vec_def)
next
  case LA: (Sparse A)
  show ?thesis
  proof (cases M)
    case Identity
    then show ?thesis using assms LA
      by (auto simp: lin_mul_def lin_vec_def lin_gives_def lin_takes_def bind_err_def)
  next
    case (Sparse B)
    from assms LA Sparse have "mat_ok A" "mat_ok B" "ncols A = nrows B" "ncols B = n"
      by (simp_all add: lin_ok_def lin_takes_def lin_gives_def)
    from mat_mul_vec [OF this(1,2,3)] obtain C where
      C: "mat_mul A B = Inr C" "mat_ok C" "ncols C = ncols B" "nrows C = nrows A"
         "\<And>v. length v = ncols B \<Longrightarrow> mat_vec C v = bind_err (mat_vec B v) (mat_vec A)"
      by blast
    show ?thesis
      using C \<open>ncols B = n\<close> LA Sparse
      by (intro exI [of _ "Sparse C"])
         (auto simp: lin_mul_def lin_vec_def lin_gives_def lin_takes_def lin_ok_def bind_err_def
               split: sum.splits)
  qed
qed

lemma lin_T_props [simp]:
  "lin_ok (lin_T L)"
  by (cases L) (simp_all add: lin_ok_def lin_T_def)

lemma lin_T_takes: "lin_takes (lin_T L) (lin_gives L n)"
  by (cases L) (simp_all add: lin_takes_def lin_gives_def lin_T_def)

lemma lin_T_gives: "lin_takes L n \<Longrightarrow> lin_gives (lin_T L) (lin_gives L n) = n"
  by (cases L) (simp_all add: lin_takes_def lin_gives_def lin_T_def)

lemma lin_vec_defined:
  "lin_takes L (length v) \<Longrightarrow> \<exists>w. lin_vec L v = Inr w \<and> length w = lin_gives L (length v)"
  by (cases L) (simp_all add: lin_takes_def lin_gives_def lin_vec_def mat_vec_def nrows_def)

text \<open>The definitions to unfold when a constructor is evaluated on a concrete input.\<close>

lemmas base_defs =
  bind_err_def dot_def broadcast_def sub_mref_def mat_vec_def mat_mul_def mat_T_def col_def nrows_def
  sdiag_def speye_def lin_vec_def lin_mul_def lin_T_def
  IdentityMap_def RegularizationMesh_init_def regmesh_nC_def class_attrs_def no_kwargs_def
  or_keep_def or_keep_opt_def L2ObjectiveFunction_init_def ensure_bool_def create_regmesh_def
  set_nP_def set_mapping_def BaseRegularization_init_def residual_def reg_eval_def
  Smallness_init_def count_true_def

lemmas mesh_defs = line_mesh_def column_mesh_def ave_row_def grad_row_def div_row_def
  ave_across_def div_across_def zeros_def

lemmas regmesh_defs =
  regmesh_Pac_def regmesh_Paf_def regmesh_aveF2CC_def regmesh_aveCC2F_def regmesh_cellDiff_def
  regmesh_faceDiff_def regmesh_cellDiffStencil_def regmesh_vol_def regmesh_dim_def min_dim_def
  cols_where_def select_def row_sums_def the_regmesh_def

lemmas smooth_defs =
  BaseSimpleSmooth_init_def SimpleSmooth_x_init_def SimpleSmooth_y_init_def SimpleSmooth_z_init_def
  drop_mref_def Simple_local_def Simple_init_def

lemmas sparse_defs =
  BaseSparse_init_def SparseSmallness_init_def Sparse_x_init_def Sparse_y_init_def
  Sparse_z_init_def sparse_weights_def the_stencil_def the_cell_weights_def the_mapping_def
  R_def fpow_def scale_def vsqrt_def

lemmas store_defs =
  vol_property_def read_array_def imul_def empty_store_def BaseSmooth2_init_def Smooth_xx_init_def
  BaseSmooth_init_def Smooth_x_init_def vsqrt_def

lemmas kw_defs = L2ObjectiveFunction_init_def class_attrs_def no_kwargs_def or_keep_def
  or_keep_opt_def no_index_array_def

section \<open>The value of a penalty term\<close>

text \<open>
  C1.  A term with weighting operator \<open>W\<close>, mapping and reference model returns, for a
  model \<open>m\<close> on which the residual \<open>r = W * mapping.apply(m - m_ref)\<close> is defined, half the
  sum of the squares of the entries of \<open>r\<close>.  On a mesh of one dimension with five cells,
  all active, a Smallness term with unit cell weights (passed as a keyword, or set on the
  class) and no reference model has the value 27.5 at \<open>m = [1, 2, 3, 4, 5]\<close>.
\<close>

theorem value_is_half_squared_residual:
  assumes "W self = Some L" and "mapping self = Some mp"
    and "sub_mref m (mref self) = Inr d"
    and "lin_vec L (map_apply mp d) = Inr r"
  shows "reg_eval self m = Inr (1 / 2 * (\<Sum>i<length r. (r ! i)\<^sup>2))
       \<and> bind_err (Smallness_init (class_attrs 2) (Some (line_mesh 5))
                    (no_kwargs\<lparr>kw_cell_weights := Some [1, 1, 1, 1, 1]\<rparr>))
            (\<lambda>t. reg_eval t [1, 2, 3, 4, 5]) = Inr (55 / 2)
       \<and> bind_err (Smallness_init ((class_attrs 2)\<lparr>cell_weights := Some [1, 1, 1, 1, 1]\<rparr>)
                    (Some (line_mesh 5)) no_kwargs)
            (\<lambda>t. reg_eval t [1, 2, 3, 4, 5]) = Inr (55 / 2)"
proof (intro conjI)
  show "reg_eval self m = Inr (1 / 2 * (\<Sum>i<length r. (r ! i)\<^sup>2))"
    using assms by (simp add: reg_eval_def residual_def bind_err_def dot_self)
  show "bind_err (Smallness_init (class_attrs 2) (Some (line_mesh 5))
                    (no_kwargs\<lparr>kw_cell_weights := Some [1, 1, 1, 1, 1]\<rparr>))
            (\<lambda>t. reg_eval t [1, 2, 3, 4, 5]) = Inr (55 / 2)"
    by (simp add: base_defs line_mesh_def)
  show "bind_err (Smallness_init ((class_attrs 2)\<lparr>cell_weights := Some [1, 1, 1, 1, 1]\<rparr>)
                    (Some (line_mesh 5)) no_kwargs)
            (\<lambda>t. reg_eval t [1, 2, 3, 4, 5]) = Inr (55 / 2)"
    by (simp add: base_defs line_mesh_def upt_rec)
qed

theorem value_is_half_squared_residual_witness:
  "reg_eval ((class_attrs 2)\<lparr>W := Some (Sparse (sdiag [2, 3])),
                             mapping := Some (IdentityMap (Some 2)), mref := Arr [1, 1]\<rparr>) [2, 3]
     = Inr 20"
proof -
  let ?s = "(class_attrs 2)\<lparr>W := Some (Sparse (sdiag [2, 3])),
                             mapping := Some (IdentityMap (Some 2)), mref := Arr [1, 1]\<rparr>"
  have 1: "W ?s = Some (Sparse (sdiag [2, 3]))" by (simp add: class_attrs_def)
  have 2: "mapping ?s = Some (IdentityMap (Some 2))" by (simp add: class_attrs_def)
  have 3: "sub_mref [2, 3] (mref ?s) = Inr [1, 2]"
    by (simp add: class_attrs_def sub_mref_def broadcast_def)
  have 4: "lin_vec (Sparse (sdiag [2, 3])) (map_apply (IdentityMap (Some 2)) [1, 2]) = Inr [2, 6]"
    by (simp add: base_defs upt_rec)
  show ?thesis
    using value_is_half_squared_residual [OF 1 2 3 4] by (simp add: lessThan_Suc eval_nat_numeral)
qed

section \<open>The two forms of the Hessian\<close>

text \<open>
  C2.  For a term whose weighting operator and whose mapping's derivative are rectangular
  and fit each other and the vector \<open>v\<close>, \<^verbatim>\<open>deriv2(m)\<close> returns an operator \<open>H\<close>,
  \<^verbatim>\<open>deriv2(m, v)\<close> returns a vector, and \<open>H\<close> applied to \<open>v\<close> is that vector.
\<close>

theorem hessian_forms_agree:
  assumes W: "W self = Some L" and D: "mapping_deriv self m = Inr mD"
    and ok: "lin_ok L" "lin_ok mD"
    and shape: "lin_takes mD (length v)" "lin_takes L (lin_gives mD (length v))"
  shows "\<exists>H hv. reg_deriv2 self m None = Inr (Operator H)
               \<and> reg_deriv2 self m (Some v) = Inr (Product hv)
               \<and> lin_vec H v = Inr hv"
proof -
  let ?n = "length v"
  let ?k = "lin_gives mD ?n"
  let ?j = "lin_gives L ?k"
  obtain a where a: "lin_vec mD v = Inr a" "length a = ?k"
    using lin_vec_defined [OF shape(1)] by blast
  obtain b where b: "lin_vec L a = Inr b" "length b = ?j"
    using lin_vec_defined [of L a] shape(2) a(2) by auto
  obtain c where c: "lin_vec (lin_T L) b = Inr c" "length c = ?k"
    using lin_vec_defined [of "lin_T L" b] lin_T_takes [of L ?k] lin_T_gives [OF shape(2)] b(2)
    by auto
  obtain h where h: "lin_vec (lin_T mD) c = Inr h"
    using lin_vec_defined [of "lin_T mD" c] lin_T_takes [of mD ?n] c(2) by auto
  have t1: "lin_takes (lin_T mD) (lin_gives (lin_T L) ?j)"
    using lin_T_takes [of mD ?n] lin_T_gives [OF shape(2)] by simp
  from lin_mul_vec [of "lin_T mD" "lin_T L" ?j, OF _ _ t1 lin_T_takes]
  obtain A where A: "lin_mul (lin_T mD) (lin_T L) = Inr A" "lin_ok A" "lin_takes A ?j"
      "\<And>u. length u = ?j \<Longrightarrow> lin_vec A u = bind_err (lin_vec (lin_T L) u) (lin_vec (lin_T mD))"
    by auto
  from lin_mul_vec [of A L ?k, OF A(2) ok(1) A(3) shape(2)]
  obtain B where B: "lin_mul A L = Inr B" "lin_ok B" "lin_takes B ?k"
      "\<And>u. length u = ?k \<Longrightarrow> lin_vec B u = bind_err (lin_vec L u) (lin_vec A)"
    by auto
  from lin_mul_vec [of B mD ?n, OF B(2) ok(2) B(3) shape(1)]
  obtain H where H: "lin_mul B mD = Inr H"
      "\<And>u. length u = ?n \<Longrightarrow> lin_vec H u = bind_err (lin_vec mD u) (lin_vec B)"
    by auto
  have "lin_vec H v = Inr h"
    using H(2) [of v] B(4) [of a] A(4) [of b] a b c h by (simp add: bind_err_def)
  moreover have "reg_deriv2 self m None = Inr (Operator H)"
    using W D A(1) B(1) H(1) by (simp add: reg_deriv2_def bind_err_def)
  moreover have "reg_deriv2 self m (Some v) = Inr (Product h)"
    using W D a b c h by (simp add: reg_deriv2_def bind_err_def)
  ultimately show ?thesis by blast
qed

theorem hessian_forms_agree_witness:
  "reg_deriv2 ((class_attrs 2)\<lparr>W := Some (Sparse (sdiag [2, 3])),
                             mapping := Some (IdentityMap (Some 2)), mref := Arr [1, 1]\<rparr>) [2, 3] (Some [1, 1])
     = Inr (Product [4, 9])
   \<and> (\<exists>H. reg_deriv2 ((class_attrs 2)\<lparr>W := Some (Sparse (sdiag [2, 3])),
                             mapping := Some (IdentityMap (Some 2)), mref := Arr [1, 1]\<rparr>) [2, 3] None
     = Inr (Operator H) \<and> lin_vec H [1, 1] = Inr [4, 9])"
proof -
  let ?s = "(class_attrs 2)\<lparr>W := Some (Sparse (sdiag [2, 3])),
                             mapping := Some (IdentityMap (Some 2)), mref := Arr [1, 1]\<rparr>"
  have 1: "W ?s = Some (Sparse (sdiag [2, 3]))" by (simp add: class_attrs_def)
  have 2: "mapping_deriv ?s [2, 3] = Inr (Sparse (speye 2))"
    by (simp add: class_attrs_def mapping_deriv_def sub_mref_def broadcast_def bind_err_def IdentityMap_def)
  have 3: "lin_ok (Sparse (sdiag [2, 3]))" "lin_ok (Sparse (speye 2))"
    by (simp_all add: lin_ok_def mat_ok_def sdiag_def speye_def upt_rec)
  have 4: "lin_takes (Sparse (speye 2)) (length [1, 1 :: real])"
    by (simp add: lin_takes_def speye_def sdiag_def)
  have 5: "lin_takes (Sparse (sdiag [2, 3])) (lin_gives (Sparse (speye 2)) (length [1, 1 :: real]))"
    by (simp add: lin_takes_def lin_gives_def speye_def sdiag_def nrows_def)
  have 6: "reg_deriv2 ?s [2, 3] (Some [1, 1]) = Inr (Product [4, 9])"
    unfolding reg_deriv2_def 1 2
    by (simp add: bind_err_def lin_vec_def lin_T_def mat_vec_def mat_T_def col_def
          nrows_def sdiag_def speye_def dot_def upt_rec)
  show ?thesis
    using hessian_forms_agree [OF 1 2 3 4 5] 6 by auto
qed

section \<open>The Simple composite\<close>

text \<open>
  C3.  The claim is that the value of a \<^verbatim>\<open>Simple\<close> objective is the sum of its terms' values
  weighted by \<open>alpha_s\<close>, \<open>alpha_x\<close>, ...  On the mesh of two cells along x with the default
  multipliers and \<open>m = [1, 3]\<close> the instance returns 5, the value of the base term with the
  identity as weighting operator, while the weighted sum of the Smallness term (5) and the
  x-smoothness term (2) that the constructor builds and binds to its local name is 7.
\<close>

theorem Simple_value_is_not_the_weighted_sum:
  "bind_err (Simple_init (class_attrs 2) (line_mesh 2) no_kwargs) (\<lambda>t. reg_eval t [1, 3]) = Inr 5
   \<and> bind_err (BaseRegularization_init (class_attrs 2) (Some (line_mesh 2)) no_kwargs)
        (\<lambda>self. bind_err (Simple_local self (line_mesh 2) no_kwargs) (\<lambda>c. combo_eval c [1, 3]))
      = Inr 7"
  by (simp add: base_defs mesh_defs regmesh_defs smooth_defs upt_rec)

section \<open>Sparse terms with a current model\<close>

text \<open>
  C4.  The claim is that a sparse term constructed with a current model has the weighting
  operator \<open>diag(sqrt(gamma * weights)) * diag(R(f_m, eps, norm))\<close>, times the stencil for
  an axis term.  \<^verbatim>\<open>SparseSmallness\<close> with a model raises AttributeError instead, and
  \<^verbatim>\<open>Sparse_z\<close> with a model leaves \<open>W\<close> the default identity: the product is in \<open>Wz\<close>.
\<close>

theorem sparse_terms_miss_the_formula:
  "SparseSmallness_init (class_attrs 0) (line_mesh 2) (no_kwargs\<lparr>kw_model := Some [1, 3]\<rparr>)
     = Inl (AttributeError ''norms'')
   \<and> bind_err (Sparse_z_init (class_attrs 2) (column_mesh 2) (no_kwargs\<lparr>kw_model := Some [1, 3]\<rparr>))
        (\<lambda>t. Inr (W t, Wz t))
     = Inr (Some Identity, Some (Sparse \<lparr>ncols = 2, rows = [[0, 0], [- 1, 1], [0, 0]]\<rparr>))"
  by (simp add: base_defs mesh_defs regmesh_defs sparse_defs upt_rec eval_nat_numeral)

section \<open>Sparse terms without a current model\<close>

text \<open>
  With the exponent 2 the reweighting vector is constant 1, so the product that
  \<^verbatim>\<open>Sparse_x\<close>, \<^verbatim>\<open>Sparse_y\<close> and \<^verbatim>\<open>Sparse_z\<close> form without a current model is the one they form
  with a model and \<^verbatim>\<open>norm = 2\<close>: plain least squares.
\<close>

lemma R_norm2: "R f_m eps 2 = replicate (length f_m) 1"
  by (simp add: R_def fpow_def map_replicate_const)

lemma sparse_weights_norm2:
  assumes "model self = None"
    and "the_regmesh self = Inr rm" and "the_stencil ax rm = Inr S"
    and "the_mapping self = Inr mp" and "ncols S = length (map_apply mp mdl)"
  shows "sparse_weights ax (self\<lparr>model := Some mdl, norm_p := 2\<rparr>) = sparse_weights ax self"
proof -
  have rm: "the_regmesh (self\<lparr>model := Some mdl, norm_p := 2\<rparr>) = Inr rm"
    using assms(2) by (simp add: the_regmesh_def)
  have mp: "the_mapping (self\<lparr>model := Some mdl, norm_p := 2\<rparr>) = Inr mp"
    using assms(4) by (simp add: the_mapping_def)
  have cw: "the_cell_weights (self\<lparr>model := Some mdl, norm_p := 2\<rparr>) = the_cell_weights self"
    by (simp add: the_cell_weights_def)
  show ?thesis
    unfolding sparse_weights_def rm mp cw assms(2)
    using assms(1,3,5)
    by (simp add: bind_err_def mat_vec_def R_norm2 speye_def nrows_def)
qed

text \<open>
  C7.  The claim is that without a current model the reweighting operator is the
  identity, so that \<open>W\<close> is the operator of the plain least-squares construction.  For
  \<^verbatim>\<open>Sparse_z\<close> on the column of two cells \<open>W\<close> stays the default identity and the stencil
  is in \<open>Wz\<close>, while \<^verbatim>\<open>SimpleSmooth_z\<close> has the stencil as \<open>W\<close>; \<^verbatim>\<open>Sparse_x\<close> and
  \<^verbatim>\<open>SimpleSmooth_x\<close> on the line of two cells agree, as the claim says.
\<close>

theorem Sparse_z_without_model_keeps_default_W:
  "bind_err (Sparse_z_init (class_attrs 2) (column_mesh 2) no_kwargs) (\<lambda>t. Inr (W t, Wz t))
     = Inr (Some Identity, Some (Sparse \<lparr>ncols = 2, rows = [[0, 0], [- 1, 1], [0, 0]]\<rparr>))
   \<and> bind_err (SimpleSmooth_z_init (class_attrs 2) (column_mesh 2) no_kwargs) (\<lambda>t. Inr (W t))
     = Inr (Some (Sparse \<lparr>ncols = 2, rows = [[0, 0], [- 1, 1], [0, 0]]\<rparr>))
   \<and> bind_err (Sparse_x_init (class_attrs 2) (line_mesh 2) no_kwargs) (\<lambda>t. Inr (W t))
     = Inr (Some (Sparse \<lparr>ncols = 2, rows = [[0, 0], [- 1, 1], [0, 0]]\<rparr>))
   \<and> bind_err (SimpleSmooth_x_init (class_attrs 2) (line_mesh 2) no_kwargs) (\<lambda>t. Inr (W t))
     = Inr (Some (Sparse \<lparr>ncols = 2, rows = [[0, 0], [- 1, 1], [0, 0]]\<rparr>))"
  by (simp add: base_defs mesh_defs regmesh_defs sparse_defs smooth_defs upt_rec eval_nat_numeral)

section \<open>The cached volume vector\<close>

text \<open>
  C9.  The claim is that constructing a term leaves the reduced volume vector the adapter
  has cached unchanged.  After \<^verbatim>\<open>Smooth_xx\<close> is constructed with cell weights \<open>[4, 9]\<close> on
  the line of two unit cells, \<^verbatim>\<open>regmesh.vol\<close> of the term's adapter returns \<open>[4, 9]\<close>; the
  reduced volumes are \<open>[1, 1]\<close>, which it returns when no cell weights are given.
\<close>

theorem Smooth_xx_overwrites_cached_vol:
  "bind_err (Smooth_xx_init (class_attrs 2) (line_mesh 2)
               (no_kwargs\<lparr>kw_cell_weights := Some [4, 9]\<rparr>) empty_store)
     (\<lambda>(t, ad, s). bind_err (vol_property ad s) (\<lambda>(a, ad', s'). Inr (read_array a s')))
     = Inr [4, 9]
   \<and> bind_err (Smooth_xx_init (class_attrs 2) (line_mesh 2)
               (no_kwargs\<lparr>kw_cell_weights := Some [4, 9]\<rparr>) empty_store)
     (\<lambda>(t, ad, s). regmesh_vol (adp_regmesh ad))
     = Inr [1, 1]
   \<and> bind_err (Smooth_xx_init (class_attrs 2) (line_mesh 2) no_kwargs empty_store)
     (\<lambda>(t, ad, s). bind_err (vol_property ad s) (\<lambda>(a, ad', s'). Inr (read_array a s')))
     = Inr [1, 1]"
  by (simp add: base_defs mesh_defs regmesh_defs store_defs upt_rec eval_nat_numeral)

section \<open>The base constructor without an index array\<close>

lemma ensure_bool_no_index:
  assumes "no_index_array self"
  shows "ensure_bool self =
     Inr (case indActive self of
            Some (BoolArr b) \<Rightarrow>
              (case mapping self of
                 None \<Rightarrow> self\<lparr>mapping := Some (IdentityMap (Some (count_true b)))\<rparr>
               | Some mp \<Rightarrow> self)
          | _ \<Rightarrow> self)"
  using assms
  by (auto simp: ensure_bool_def no_index_array_def bind_err_def
           split: option.splits ndarray.splits)

lemma base_init_nP:
  assumes "no_index_array (L2ObjectiveFunction_init cls kw)"
    and "kw_nP kw = None \<or>
         (mapping (L2ObjectiveFunction_init cls kw) = None
          \<and> indActive (L2ObjectiveFunction_init cls kw) = None \<and> mesh_arg = None)"
  shows "\<exists>t. BaseRegularization_init cls mesh_arg kw = Inr t \<and>
           nP t =
             (case mapping (L2ObjectiveFunction_init cls kw) of
                Some mp \<Rightarrow> map_nP mp
              | None \<Rightarrow>
                  (case indActive (L2ObjectiveFunction_init cls kw) of
                     Some (BoolArr b) \<Rightarrow> Some (count_true b)
                   | _ \<Rightarrow> (case mesh_arg of Some M \<Rightarrow> Some (mesh_nC M) | None \<Rightarrow> kw_nP kw)))"
proof -
  let ?s = "(L2ObjectiveFunction_init cls kw)\<lparr>mesh := mesh_arg\<rparr>"
  have ni: "no_index_array ?s" using assms(1) by (simp add: no_index_array_def)
  show ?thesis
    unfolding BaseRegularization_init_def ensure_bool_no_index [OF ni]
    using assms
    by (auto simp: bind_err_def create_regmesh_def set_nP_def set_mapping_def
          RegularizationMesh_init_def regmesh_nC_def IdentityMap_def no_index_array_def
          split: option.splits ndarray.splits)
qed

section \<open>The parameter count\<close>

text \<open>
  Without an \<^verbatim>\<open>nP\<close> keyword the parameter count is derived as lemma \<open>base_init_nP\<close>
  says.  With one, both branches that have another source for the count call
  \<^verbatim>\<open>warnings(...)\<close>, the module, before they assign.
\<close>

lemma set_nP_conflict_raises:
  assumes "nP_arg \<noteq> None" and "mapping self \<noteq> None \<or> mesh self \<noteq> None"
  shows "set_nP self nP_arg = Inl (TypeError ''module object is not callable'')"
  using assms by (auto simp: set_nP_def split: option.splits)

text \<open>
  C5.  The claim is that an explicit \<^verbatim>\<open>nP\<close> passed beside a mapping or a mesh gives a
  warning that is not fatal: construction succeeds with the derived value.  The
  constructor raises TypeError instead: with a mesh of four cells and \<^verbatim>\<open>nP=3\<close>, with the
  same mesh and the agreeing \<^verbatim>\<open>nP=4\<close>, and with a mapping of three parameters and \<^verbatim>\<open>nP=5\<close>.
  Without \<^verbatim>\<open>nP\<close> the same calls construct, with 4 and 3 parameters.
\<close>

theorem conflicting_nP_raises_TypeError:
  "BaseRegularization_init (class_attrs 2) (Some (line_mesh 4)) (no_kwargs\<lparr>kw_nP := Some 3\<rparr>)
     = Inl (TypeError ''module object is not callable'')
   \<and> BaseRegularization_init (class_attrs 2) (Some (line_mesh 4)) (no_kwargs\<lparr>kw_nP := Some 4\<rparr>)
     = Inl (TypeError ''module object is not callable'')
   \<and> BaseRegularization_init (class_attrs 2) None
        (no_kwargs\<lparr>kw_nP := Some 5, kw_mapping := Some (IdentityMap (Some 3))\<rparr>)
     = Inl (TypeError ''module object is not callable'')
   \<and> bind_err (BaseRegularization_init (class_attrs 2) (Some (line_mesh 4)) no_kwargs)
        (\<lambda>t. Inr (nP t)) = Inr (Some 4)
   \<and> bind_err (BaseRegularization_init (class_attrs 2) None
                  (no_kwargs\<lparr>kw_mapping := Some (IdentityMap (Some 3))\<rparr>))
        (\<lambda>t. Inr (nP t)) = Inr (Some 3)"
  by (simp add: base_defs mesh_defs)

section \<open>The weighting operator of Smallness\<close>

text \<open>
  The operator that \<^verbatim>\<open>Smallness.__init__\<close> passes on is built from the attribute
  \<^verbatim>\<open>cell_weights\<close> as the class has it when the constructor starts; no keyword changes it.
\<close>

lemma Smallness_W_from_class_attribute:
  assumes "kw_W kw = None" and "kw_nP kw = None"
    and "no_index_array (L2ObjectiveFunction_init cls kw)"
  shows "\<exists>t. Smallness_init cls mesh_arg kw = Inr t \<and>
           W t = Some (case cell_weights cls of None \<Rightarrow> Identity | Some cw \<Rightarrow> Sparse (sdiag cw))"
proof -
  define W0 where "W0 = (case cell_weights cls of None \<Rightarrow> Identity | Some cw \<Rightarrow> Sparse (sdiag cw))"
  let ?kw = "kw\<lparr>kw_W := Some W0\<rparr>"
  have ni: "no_index_array (L2ObjectiveFunction_init cls ?kw)"
    using assms(3) by (simp add: no_index_array_def L2ObjectiveFunction_init_def)
  have nP: "kw_nP ?kw = None \<or>
         (mapping (L2ObjectiveFunction_init cls ?kw) = None
          \<and> indActive (L2ObjectiveFunction_init cls ?kw) = None \<and> mesh_arg = None)"
    using assms(2) by simp
  obtain t where t: "BaseRegularization_init cls mesh_arg ?kw = Inr t"
    using base_init_nP [OF ni nP] by blast
  have keep: "W t = W (L2ObjectiveFunction_init cls ?kw)"
    using t
    by (auto simp: BaseRegularization_init_def ensure_bool_def create_regmesh_def set_nP_def
          set_mapping_def bind_err_def
          split: option.splits ndarray.splits sum.splits if_splits)
  have "W t = Some W0"
    unfolding keep by (simp add: L2ObjectiveFunction_init_def or_keep_opt_def)
  then show ?thesis
    using t assms(1) by (simp add: Smallness_init_def Let_def W0_def)
qed

text \<open>
  C6.  The claim is that a Smallness term constructed with a cell-weights array has
  \<open>W = diag(sqrt(cell_weights))\<close>.  Constructed with the keyword \<^verbatim>\<open>cell_weights=[4]\<close> on the
  mesh of one cell, the term stores the weights but has the identity as \<open>W\<close>, and its
  value at \<open>m = [3]\<close> is 4.5, where \<open>diag(sqrt [4])\<close> gives 18.  Line 513, reached only
  when the class already has the attribute, builds \<open>diag [4]\<close>, with the value 72.
\<close>

theorem Smallness_ignores_cell_weights_keyword:
  "bind_err (Smallness_init (class_attrs 2) (Some (line_mesh 1))
               (no_kwargs\<lparr>kw_cell_weights := Some [4]\<rparr>))
     (\<lambda>t. Inr (W t, cell_weights t)) = Inr (Some Identity, Some [4])
   \<and> bind_err (Smallness_init (class_attrs 2) (Some (line_mesh 1))
               (no_kwargs\<lparr>kw_cell_weights := Some [4]\<rparr>))
     (\<lambda>t. reg_eval t [3]) = Inr (9 / 2)
   \<and> bind_err (Smallness_init ((class_attrs 2)\<lparr>cell_weights := Some [4]\<rparr>) (Some (line_mesh 1))
               no_kwargs)
     (\<lambda>t. Inr (W t)) = Inr (Some (Sparse \<lparr>ncols = 1, rows = [[4]]\<rparr>))
   \<and> bind_err (Smallness_init ((class_attrs 2)\<lparr>cell_weights := Some [4]\<rparr>) (Some (line_mesh 1))
               no_kwargs)
     (\<lambda>t. reg_eval t [3]) = Inr 72"
  by (simp add: base_defs mesh_defs upt_rec)

section \<open>Axis terms and the dimension of the mesh\<close>

text \<open>
  C8.  On a mesh of dimension at most 1 the constructors of the y-axis terms
  (\<^verbatim>\<open>SimpleSmooth_y\<close>, \<^verbatim>\<open>Smooth_y\<close>, \<^verbatim>\<open>Smooth_yy\<close>, \<^verbatim>\<open>Sparse_y\<close>) fail with the assertion
  error about the dimension, and on a mesh of dimension at most 2 so do those of the
  z-axis terms (\<^verbatim>\<open>SimpleSmooth_z\<close>, \<^verbatim>\<open>Smooth_z\<close>, \<^verbatim>\<open>Smooth_zz\<close>, \<^verbatim>\<open>Sparse_z\<close>).
\<close>

theorem axis_terms_need_dimensions:
  "(mesh_dim M \<le> 1 \<longrightarrow>
      SimpleSmooth_y_init cls M kw = Inl (dim_error Y) \<and> Smooth_y_init cls M kw s = Inl (dim_error Y)
      \<and> Smooth_yy_init cls M kw = Inl (dim_error Y) \<and> Sparse_y_init cls M kw = Inl (dim_error Y))
   \<and> (mesh_dim M \<le> 2 \<longrightarrow>
      SimpleSmooth_z_init cls M kw = Inl (dim_error Z) \<and> Smooth_z_init cls M kw s = Inl (dim_error Z)
      \<and> Smooth_zz_init cls M kw = Inl (dim_error Z) \<and> Sparse_z_init cls M kw = Inl (dim_error Z))
   \<and> dim_error Y = AssertionError
        ''Mesh must have at least 2 dimensions to regularize along the y-direction''
   \<and> dim_error Z = AssertionError
        ''Mesh must have at least 3 dimensions to regularize along the z-direction''"
  by (simp add: SimpleSmooth_y_init_def Smooth_y_init_def Smooth_yy_init_def Sparse_y_init_def
        SimpleSmooth_z_init_def Smooth_z_init_def Smooth_zz_init_def Sparse_z_init_def dim_error_def)

theorem axis_terms_need_dimensions_witness:
  "SimpleSmooth_y_init (class_attrs 2) (line_mesh 2) no_kwargs = Inl (dim_error Y)
   \<and> Smooth_yy_init (class_attrs 2) (line_mesh 2) no_kwargs = Inl (dim_error Y)
   \<and> Sparse_y_init (class_attrs 2) (line_mesh 2) no_kwargs = Inl (dim_error Y)
   \<and> Smooth_z_init (class_attrs 2) ((line_mesh 2)\<lparr>mesh_dim := 2\<rparr>) no_kwargs empty_store
       = Inl (dim_error Z)
   \<and> Sparse_z_init (class_attrs 2) ((line_mesh 2)\<lparr>mesh_dim := 2\<rparr>) no_kwargs = Inl (dim_error Z)"
proof -
  have 1: "mesh_dim (line_mesh 2) \<le> 1" by (simp add: line_mesh_def)
  have 2: "mesh_dim ((line_mesh 2)\<lparr>mesh_dim := 2\<rparr>) \<le> 2" by simp
  from axis_terms_need_dimensions [of "line_mesh 2" "class_attrs 2" no_kwargs empty_store] 1
       axis_terms_need_dimensions [of "(line_mesh 2)\<lparr>mesh_dim := 2\<rparr>" "class_attrs 2" no_kwargs
                                     empty_store] 2
  show ?thesis by blast
qed

section \<open>An active set given as indices\<close>

lemma fold_set_length:
  "length (fold (\<lambda>i a. a[f i := True]) tmp a) = length a"
  by (induction tmp arbitrary: a) simp_all

lemma fold_set_nth:
  "j < length a \<Longrightarrow> fold (\<lambda>i a. a[f i := True]) tmp a ! j = (a ! j \<or> j \<in> f ` set tmp)"
proof (induction tmp arbitrary: a)
  case Nil
  then show ?case by simp
next
  case (Cons i tmp)
  have upd: "a[f i := True] ! j = (a ! j \<or> j = f i)"
  proof (cases "f i < length a")
    case True
    then show ?thesis by (auto simp: nth_list_update)
  next
    case False
    then show ?thesis using Cons.prems by auto
  qed
  have "fold (\<lambda>i a. a[f i := True]) (i # tmp) a ! j
      = (a[f i := True] ! j \<or> j \<in> f ` set tmp)"
    using Cons.IH [of "a[f i := True]"] Cons.prems by simp
  then show ?case unfolding upd by auto
qed

lemma np_index_less:
  "- int n \<le> i \<Longrightarrow> i < int n \<Longrightarrow> np_index n i < n"
  by (auto simp: np_index_def)

lemma set_true_mask:
  assumes "list_all (\<lambda>i. - int n \<le> i \<and> i < int n) tmp"
  shows "\<exists>b. set_true n tmp = Inr b \<and> length b = n
            \<and> (\<forall>j<n. b ! j = (j \<in> np_index n ` set tmp))
            \<and> count_true b = card (np_index n ` set tmp)"
proof -
  let ?b = "fold (\<lambda>i a. a[np_index n i := True]) tmp (replicate n False)"
  have 1: "set_true n tmp = Inr ?b" using assms by (simp add: set_true_def)
  have 2: "length ?b = n" by (simp add: fold_set_length)
  have 3: "?b ! j = (j \<in> np_index n ` set tmp)" if "j < n" for j
    using that by (simp add: fold_set_nth)
  have sub: "np_index n ` set tmp \<subseteq> {..<n}"
    using assms by (auto simp: list_all_iff np_index_less)
  have "count_true ?b = card {j. j < length ?b \<and> ?b ! j}"
    by (simp add: count_true_def length_filter_conv_card)
  also have "{j. j < length ?b \<and> ?b ! j} = np_index n ` set tmp"
    using sub 3 2 by auto
  finally have 4: "count_true ?b = card (np_index n ` set tmp)" .
  show ?thesis using 1 2 3 4 by blast
qed

text \<open>
  C10.  With a mesh, no \<^verbatim>\<open>nP\<close> keyword and an active set given as an array of indices that
  are valid for the mesh (numpy counts negative ones from the end), the base constructor
  does not raise: the active set of the instance is a boolean mask with one entry per
  cell of the mesh, true exactly at the listed indices, and when no mapping was given
  the mapping is the identity mapping of as many parameters as there are active cells.
\<close>

theorem index_array_becomes_mask:
  assumes ind: "indActive (L2ObjectiveFunction_init cls kw) = Some (IntArr tmp)"
    and rng: "list_all (\<lambda>i. - int (mesh_nC M) \<le> i \<and> i < int (mesh_nC M)) tmp"
    and nP: "kw_nP kw = None"
  shows "\<exists>t b. BaseRegularization_init cls (Some M) kw = Inr t
           \<and> indActive t = Some (BoolArr b)
           \<and> length b = mesh_nC M
           \<and> (\<forall>j<mesh_nC M. b ! j = (j \<in> np_index (mesh_nC M) ` set tmp))
           \<and> count_true b = card (np_index (mesh_nC M) ` set tmp)
           \<and> mapping t = Some (case mapping (L2ObjectiveFunction_init cls kw) of
                                 None \<Rightarrow> IdentityMap (Some (count_true b))
                               | Some mp \<Rightarrow> mp)"
proof -
  obtain b where b: "set_true (mesh_nC M) tmp = Inr b" "length b = mesh_nC M"
      "\<forall>j<mesh_nC M. b ! j = (j \<in> np_index (mesh_nC M) ` set tmp)"
      "count_true b = card (np_index (mesh_nC M) ` set tmp)"
    using set_true_mask [OF rng] by blast
  let ?s = "L2ObjectiveFunction_init cls kw"
  have "\<exists>t. BaseRegularization_init cls (Some M) kw = Inr t
           \<and> indActive t = Some (BoolArr b)
           \<and> mapping t = Some (case mapping ?s of
                                 None \<Rightarrow> IdentityMap (Some (count_true b))
                               | Some mp \<Rightarrow> mp)"
    using ind b(1) nP
    by (cases "mapping ?s")
       (simp_all add: BaseRegularization_init_def ensure_bool_def create_regmesh_def set_nP_def
          set_mapping_def bind_err_def RegularizationMesh_init_def)
  then show ?thesis using b(2,3,4) by blast
qed

theorem index_array_becomes_mask_witness:
  "\<exists>t. BaseRegularization_init (class_attrs 2) (Some (line_mesh 4))
          (no_kwargs\<lparr>kw_indActive := Some (IntArr [0, 2, - 1, 2])\<rparr>) = Inr t
       \<and> indActive t = Some (BoolArr [True, False, True, True])
       \<and> mapping t = Some (IdentityMap (Some 3))"
proof -
  let ?kw = "no_kwargs\<lparr>kw_indActive := Some (IntArr [0, 2, - 1, 2])\<rparr>"
  have 1: "indActive (L2ObjectiveFunction_init (class_attrs 2) ?kw) = Some (IntArr [0, 2, - 1, 2])"
    by (simp add: kw_defs)
  have 2: "list_all (\<lambda>i. - int (mesh_nC (line_mesh 4)) \<le> i \<and> i < int (mesh_nC (line_mesh 4)))
             [0, 2, - 1, 2]"
    by (simp add: line_mesh_def)
  have 3: "kw_nP ?kw = None" by (simp add: no_kwargs_def)
  obtain t b where t: "BaseRegularization_init (class_attrs 2) (Some (line_mesh 4)) ?kw = Inr t"
      "indActive t = Some (BoolArr b)" "length b = mesh_nC (line_mesh 4)"
      "\<forall>j<mesh_nC (line_mesh 4). b ! j = (j \<in> np_index (mesh_nC (line_mesh 4)) ` set [0, 2, - 1, 2])"
      "mapping t = Some (case mapping (L2ObjectiveFunction_init (class_attrs 2) ?kw) of
                                 None \<Rightarrow> IdentityMap (Some (count_true b))
                               | Some mp \<Rightarrow> mp)"
    using index_array_becomes_mask [OF 1 2 3] by blast
  have n: "mesh_nC (line_mesh 4) = 4" by (simp add: line_mesh_def)
  have len: "length b = 4" using t(3) n by simp
  have nth: "b ! 0 = True" "b ! 1 = False" "b ! 2 = True" "b ! 3 = True"
    using t(4) unfolding n by (simp_all add: np_index_def)
  have b: "b = [True, False, True, True]"
    using len nth by (intro nth_equalityI) (auto simp: less_Suc_eq eval_nat_numeral)
  have "mapping t = Some (IdentityMap (Some 3))"
    unfolding t(5) b by (simp add: kw_defs count_true_def numeral_3_eq_3)
  with t(1,2) b show ?thesis by blast
qed

end
